theory Spec2Isabelle
  imports Main "HOL-Library.Word"
begin

section \<open>Data model\<close>

text \<open>
  A Python \<open>str\<close> is a sequence of Unicode code points, so it is modelled as a list of
  natural numbers (a code point is below \<open>0x110000\<close>); \<open>bytes\<close> is a list of 8-bit
  words. An ASCII literal of the source is written with \<open>lit\<close>; the few non-ASCII
  characters of the source's literals are given by their code points.
\<close>

type_synonym pystr = "nat list"
type_synonym pybytes = "8 word list"

definition lit :: "string \<Rightarrow> pystr" where
  "lit s = map of_char s"

text \<open>
  A raised exception, as far as the handler looks at it: whether its class derives from
  \<open>Exception\<close> (what \<open>except Exception\<close> tests; \<open>KeyboardInterrupt\<close> and
  \<open>SystemExit\<close> do not), and the text \<open>str(e)\<close>.
\<close>

datatype exn = Exn (is_Exception: bool) (str_of: pystr)

text \<open>\<open>app_commands.Choice\<close>: a display name and the value handed to the handler.\<close>

record choice =
  choice_name :: pystr
  choice_value :: pystr

text \<open>The five presets registered by \<open>@app_commands.choices(style=[...])\<close>.\<close>

definition style_choices :: "choice list" where
  "style_choices =
    [\<lparr>choice_name = lit ''Cyberpunk'', choice_value = lit ''cyberpunk neon with circuit patterns''\<rparr>,
     \<lparr>choice_name = lit ''Minimalist'', choice_value = lit ''minimalist geometric clean''\<rparr>,
     \<lparr>choice_name = lit ''Retro'', choice_value = lit ''retro 80s synthwave''\<rparr>,
     \<lparr>choice_name = lit ''Gaming'', choice_value = lit ''gaming esports bold''\<rparr>,
     \<lparr>choice_name = lit ''Tech Startup'', choice_value = lit ''modern tech startup professional''\<rparr>]"

text \<open>The preset the platform hands over when the user picks the choice called \<open>n\<close>.\<close>

definition choice_named :: "pystr \<Rightarrow> choice option" where
  "choice_named n = find (\<lambda>c. choice_name c = n) style_choices"

text \<open>\<open>datetime.now()\<close>: the fields that \<open>strftime\<close> reads.\<close>

record datetime =
  year :: nat
  month :: nat
  day :: nat
  hour :: nat
  minute :: nat
  second :: nat

datatype color = Blue | Red

text \<open>\<open>discord.Embed\<close> and \<open>discord.File\<close>, with the fields the handler sets.\<close>

record embed =
  title :: pystr
  description :: pystr
  embed_color :: color
  footer :: "pystr option"

record discord_file =
  fp :: pybytes
  filename :: pystr

text \<open>
  What the handler does to the outside, in the order it does it:
  \<open>interaction.response.send_message(content, ephemeral=...)\<close>,
  \<open>interaction.response.defer()\<close>, \<open>generate_logo_svg.remote(prompt=...)\<close> and
  \<open>interaction.followup.send(embed=..., file=..., ephemeral=...)\<close>. The platform calls are
  recorded as made; each is awaited, so the next statement runs after it.
\<close>

datatype action =
    SendMessage pystr bool
  | Defer
  | Remote pystr
  | FollowupSend embed "discord_file option" bool

section \<open>Standard library operations used by the handler\<close>

subsection \<open>Decimal and hexadecimal digits\<close>

definition digit :: "nat \<Rightarrow> nat" where
  "digit d = (if d < 10 then 48 + d else 87 + d)"

fun dec :: "nat \<Rightarrow> pystr" where
  "dec n = (if n < 10 then [digit n] else dec (n div 10) @ [digit (n mod 10)])"

declare dec.simps [simp del]

text \<open>\<open>%02d\<close>, as \<open>strftime\<close> prints month, day, hour, minute and second.\<close>

definition dec2 :: "nat \<Rightarrow> pystr" where
  "dec2 n = (if n < 10 then 48 # dec n else dec n)"

text \<open>\<open>%04x\<close>.\<close>

definition hex4 :: "nat \<Rightarrow> pystr" where
  "hex4 c = [digit (c div 4096 mod 16), digit (c div 256 mod 16), digit (c div 16 mod 16), digit (c mod 16)]"

subsection \<open>\<open>str.encode('utf-8')\<close>\<close>

definition is_surrogate :: "nat \<Rightarrow> bool" where
  "is_surrogate c = (55296 \<le> c \<and> c < 57344)"

text \<open>The bytes of one code point that is not a surrogate.\<close>

definition utf8_char :: "nat \<Rightarrow> pybytes" where
  "utf8_char c =
    (if c < 128 then [of_nat c]
     else if c < 2048 then [of_nat (192 + c div 64), of_nat (128 + c mod 64)]
     else if c < 65536 then
       [of_nat (224 + c div 4096), of_nat (128 + c div 64 mod 64), of_nat (128 + c mod 64)]
     else
       [of_nat (240 + c div 262144), of_nat (128 + c div 4096 mod 64),
        of_nat (128 + c div 64 mod 64), of_nat (128 + c mod 64)])"

text \<open>
  The strict error handler: at the first surrogate the encoder raises
  \<open>UnicodeEncodeError\<close> for the whole run of surrogates that starts there. Its \<open>str\<close>
  names the character when the run has length one and the positions otherwise
  (\<open>39\<close> is the apostrophe, \<open>92, 117\<close> the backslash and \<open>u\<close>).
\<close>

definition unicode_encode_error :: "nat \<Rightarrow> nat \<Rightarrow> pystr \<Rightarrow> exn" where
  "unicode_encode_error pos c cs =
    (let run = Suc (length (takeWhile is_surrogate cs)) in
     Exn True
       (if run = 1 then
          [39] @ lit ''utf-8'' @ [39] @ lit '' codec can'' @ [39]
          @ lit ''t encode character '' @ [39, 92, 117] @ hex4 c
          @ [39] @ lit '' in position '' @ dec pos @ lit '': surrogates not allowed''
        else
          [39] @ lit ''utf-8'' @ [39] @ lit '' codec can'' @ [39]
          @ lit ''t encode characters in position '' @ dec pos @ lit ''-'' @ dec (pos + run - 1)
          @ lit '': surrogates not allowed''))"

fun utf8_from :: "nat \<Rightarrow> pystr \<Rightarrow> exn + pybytes" where
  "utf8_from pos [] = Inr []"
| "utf8_from pos (c # cs) =
    (if is_surrogate c then Inl (unicode_encode_error pos c cs)
     else (case utf8_from (Suc pos) cs of
             Inl e \<Rightarrow> Inl e
           | Inr bs \<Rightarrow> Inr (utf8_char c @ bs)))"

definition encode_utf8 :: "pystr \<Rightarrow> exn + pybytes" where
  "encode_utf8 s = utf8_from 0 s"

subsection \<open>\<open>datetime.strftime('%Y%m%d_%H%M%S')\<close>\<close>

text \<open>
  \<open>%Y\<close> is the year as a decimal number, the other fields are two digits wide. The
  system clock gives a year of four digits.
\<close>

definition strftime :: "datetime \<Rightarrow> pystr" where
  "strftime t =
    dec (year t) @ dec2 (month t) @ dec2 (day t) @ [95] @ dec2 (hour t) @ dec2 (minute t) @ dec2 (second t)"

definition clock_ok :: "datetime \<Rightarrow> bool" where
  "clock_ok t =
    (1000 \<le> year t \<and> year t \<le> 9999 \<and> 1 \<le> month t \<and> month t \<le> 12 \<and> 1 \<le> day t \<and> day t \<le> 31
     \<and> hour t < 24 \<and> minute t < 60 \<and> second t < 60)"

section \<open>The command handler (\<open>discord_logo_bot.py\<close>)\<close>

text \<open>Lines 72 to 75: the prompt, with the style's value appended when a style is chosen.\<close>

definition full_prompt :: "pystr \<Rightarrow> choice option \<Rightarrow> pystr" where
  "full_prompt prompt style =
    (case style of
       None \<Rightarrow> prompt
     | Some c \<Rightarrow> prompt @ lit '' in '' @ choice_value c @ lit '' style'')"

definition not_connected :: pystr where
  "not_connected = [10060] @ lit '' Modal app not connected. Please check the bot logs.''"

definition success_embed :: "pystr \<Rightarrow> embed" where
  "success_embed p =
    \<lparr>title = [127912] @ lit '' Logo Generated!'',
     description = lit ''**Prompt:** '' @ p,
     embed_color = Blue,
     footer = Some (lit ''Powered by Modal + Qwen3-8B'')\<rparr>"

definition error_embed :: "exn \<Rightarrow> embed" where
  "error_embed e =
    \<lparr>title = [10060] @ lit '' Generation Failed'',
     description = lit ''```'' @ str_of e @ lit ''```'',
     embed_color = Red,
     footer = None\<rparr>"

text \<open>
  The body of the \<open>try\<close>: the actions done, and the exception that ended it, if any.
\<close>

definition try_body :: "(pystr \<Rightarrow> exn + pystr) \<Rightarrow> datetime \<Rightarrow> pystr \<Rightarrow> action list \<times> exn option" where
  "try_body g now p =
    (case g p of
       Inl e \<Rightarrow> ([Remote p], Some e)
     | Inr svg_code \<Rightarrow>
         (case encode_utf8 svg_code of
            Inl e \<Rightarrow> ([Remote p], Some e)
          | Inr bs \<Rightarrow>
              (let svg_file = \<lparr>fp = bs, filename = lit ''logo_'' @ strftime now @ lit ''.svg''\<rparr>
               in ([Remote p, FollowupSend (success_embed p) (Some svg_file) False], None))))"

text \<open>
  The handler. \<open>gen\<close> is the module's \<open>generate_logo_svg\<close>: \<open>None\<close> when the import
  failed, else what its \<open>remote\<close> does with a prompt (a string, or a raised exception).
  The result is the actions in order and the exception that leaves the handler, if any.
\<close>

definition generate_logo ::
  "(pystr \<Rightarrow> exn + pystr) option \<Rightarrow> datetime \<Rightarrow> pystr \<Rightarrow> choice option \<Rightarrow> action list \<times> exn option" where
  "generate_logo gen now prompt style =
    (case gen of
       None \<Rightarrow> ([SendMessage not_connected True], None)
     | Some g \<Rightarrow>
         (case try_body g now (full_prompt prompt style) of
            (acts, None) \<Rightarrow> (Defer # acts, None)
          | (acts, Some e) \<Rightarrow>
              (if is_Exception e
               then (Defer # acts @ [FollowupSend (error_embed e) None True], None)
               else (Defer # acts, Some e))))"

text \<open>Reading a trace: the prompts given to the remote function, and the followups.\<close>

fun remote_prompts :: "action list \<Rightarrow> pystr list" where
  "remote_prompts [] = []"
| "remote_prompts (Remote p # as) = p # remote_prompts as"
| "remote_prompts (a # as) = remote_prompts as"

fun attachments :: "action list \<Rightarrow> discord_file list" where
  "attachments [] = []"
| "attachments (FollowupSend e (Some f) eph # as) = f # attachments as"
| "attachments (a # as) = attachments as"

fun followups :: "action list \<Rightarrow> (embed \<times> discord_file option \<times> bool) list" where
  "followups [] = []"
| "followups (FollowupSend e f eph # as) = (e, f, eph) # followups as"
| "followups (a # as) = followups as"

text \<open>
  The shape of the file name's time stamp: eight digits, an underscore, six digits.
\<close>

definition is_dec_digit :: "nat \<Rightarrow> bool" where
  "is_dec_digit c = (48 \<le> c \<and> c < 58)"

definition is_timestamp :: "pystr \<Rightarrow> bool" where
  "is_timestamp ts =
    (length ts = 15 \<and> list_all is_dec_digit (take 8 ts) \<and> ts ! 8 = 95
     \<and> list_all is_dec_digit (drop 9 ts))"

text \<open>Remote functions that return a given string, or raise a given exception.\<close>

definition remote_returning :: "pystr \<Rightarrow> pystr \<Rightarrow> exn + pystr" where
  "remote_returning s p = Inr s"

definition remote_raising :: "exn \<Rightarrow> pystr \<Rightarrow> exn + pystr" where
  "remote_raising e p = Inl e"

text \<open>\<open>KeyboardInterrupt()\<close>: not an \<open>Exception\<close>, and its \<open>str\<close> is empty.\<close>

definition keyboard_interrupt :: exn where
  "keyboard_interrupt = Exn False []"

definition a_clock :: datetime where
  "a_clock = \<lparr>year = 2024, month = 3, day = 9, hour = 7, minute = 5, second = 0\<rparr>"

section \<open>The remote generator stub (\<open>logo_generator.py\<close>)\<close>

text \<open>The function body: the prompt is not read, the constant is returned, nothing is raised.\<close>

definition generate_logo_svg :: "pystr \<Rightarrow> exn + pystr" where
  "generate_logo_svg prompt = Inr (lit ''<svg>...</svg>'')"

section \<open>Start-up (\<open>start_bot\<close> and the \<open>__main__\<close> block)\<close>

text \<open>
  The process environment after \<open>load_dotenv()\<close> is a map from names to strings;
  \<open>os.getenv\<close> gives \<open>None\<close> for a name that is not set.
\<close>

type_synonym environ = "string \<Rightarrow> pystr option"

definition getenv :: "environ \<Rightarrow> string \<Rightarrow> pystr option" where
  "getenv env k = env k"

text \<open>Truth value of an optional string: \<open>None\<close> and the empty string are false.\<close>

definition truthy :: "pystr option \<Rightarrow> bool" where
  "truthy v = (case v of None \<Rightarrow> False | Some s \<Rightarrow> s \<noteq> [])"

text \<open>\<open>a or b\<close>: \<open>a\<close> when it is true, else \<open>b\<close>.\<close>

definition py_or :: "pystr option \<Rightarrow> pystr option \<Rightarrow> pystr option" where
  "py_or a b = (if truthy a then a else b)"

definition TOKEN :: "environ \<Rightarrow> pystr option" where
  "TOKEN env = py_or (getenv env ''DISCORD_BOT_TOKE'') (getenv env ''DISCORD_BOT_TOKEN'')"

datatype startup_action =
    Print pystr
  | ClientStart pystr
  | ClientClose
  | ClientRun pystr
  | Exit nat

definition token_not_set :: "startup_action list" where
  "token_not_set =
    [Print ([10060] @ lit '' Error: DISCORD_BOT_TOKEN not set in .env file''),
     Print (lit ''Add to .env file: DISCORD_BOT_TOKE=your-token-here'')]"

definition starting :: startup_action where
  "starting = Print ([129302] @ lit '' Starting Discord bot...'')"

text \<open>How \<open>await client.start(TOKEN)\<close> ends.\<close>

datatype start_outcome = Returns | KeyboardInterrupt | Raises exn

text \<open>
  \<open>start_bot\<close>: what it prints and calls, and the exception that leaves it, if any.
\<close>

definition start_bot :: "environ \<Rightarrow> start_outcome \<Rightarrow> startup_action list \<times> exn option" where
  "start_bot env outcome =
    (if \<not> truthy (TOKEN env) then (token_not_set, None)
     else
       (let PUBLIC_KEY = getenv env ''DISCORD_PUBLIC_KEY'';
            APP_ID = getenv env ''DISCORD_APP_ID'';
            shown =
              (if truthy PUBLIC_KEY
               then [Print ([9989] @ lit '' Using Discord Public Key: ''
                            @ take 8 (case PUBLIC_KEY of Some k \<Rightarrow> k | None \<Rightarrow> []) @ lit ''...'')]
               else [])
              @ (if truthy APP_ID
                 then [Print ([9989] @ lit '' Using Discord App ID: ''
                              @ (case APP_ID of Some a \<Rightarrow> a | None \<Rightarrow> []))]
                 else [])
              @ [starting, ClientStart (case TOKEN env of Some t \<Rightarrow> t | None \<Rightarrow> [])]
        in (case outcome of
              Returns \<Rightarrow> (shown, None)
            | KeyboardInterrupt \<Rightarrow> (shown @ [ClientClose], None)
            | Raises e \<Rightarrow> (shown, Some e))))"

text \<open>
  The \<open>__main__\<close> block. \<open>running_loop\<close> says whether \<open>asyncio.get_running_loop()\<close>
  finds a loop (a notebook); when it raises \<open>RuntimeError\<close> the token is read and the
  client is run, or the process exits with status 1.
\<close>

definition main :: "environ \<Rightarrow> bool \<Rightarrow> startup_action list" where
  "main env running_loop =
    (if running_loop then
       [Print ([128211] @ lit '' Jupyter/IPython detected''),
        Print ([9888, 65039] @ lit ''  Run this instead: await start_bot()''),
        Print ([9888, 65039] @ lit ''  Or better: run from command line with ''
               @ [39] @ lit ''python discord_logo_bot.py'' @ [39])]
     else if \<not> truthy (TOKEN env) then token_not_set @ [Exit 1]
     else [starting, ClientRun (case TOKEN env of Some t \<Rightarrow> t | None \<Rightarrow> [])])"

text \<open>The tokens the client was started or run with, in order.\<close>

fun client_tokens :: "startup_action list \<Rightarrow> pystr list" where
  "client_tokens [] = []"
| "client_tokens (ClientStart t # as) = t # client_tokens as"
| "client_tokens (ClientRun t # as) = t # client_tokens as"
| "client_tokens (a # as) = client_tokens as"

text \<open>\<open>SystemExit('3')\<close>: not an \<open>Exception\<close>; its \<open>str\<close> is \<open>3\<close>.\<close>

definition system_exit_3 :: exn where
  "system_exit_3 = Exn False (lit ''3'')"

text \<open>Environments for the examples.\<close>

definition env_of :: "(string \<times> pystr) list \<Rightarrow> environ" where
  "env_of kvs = map_of kvs"

section \<open>Facts about the library operations\<close>

lemma dec_one_digit: "n < 10 \<Longrightarrow> dec n = [48 + n]"
  by (subst dec.simps) (simp add: digit_def)

lemma dec_two_digits: "10 \<le> n \<Longrightarrow> n < 100 \<Longrightarrow> dec n = [48 + n div 10, 48 + n mod 10]"
  by (subst dec.simps) (simp add: dec_one_digit digit_def)

lemma dec_three_digits:
  "100 \<le> n \<Longrightarrow> n < 1000 \<Longrightarrow> dec n = [48 + n div 100, 48 + n div 10 mod 10, 48 + n mod 10]"
  by (subst dec.simps) (simp add: dec_two_digits digit_def div_mult2_eq [symmetric])

lemma dec_four_digits:
  "1000 \<le> n \<Longrightarrow> n < 10000 \<Longrightarrow>
   dec n = [48 + n div 1000, 48 + n div 100 mod 10, 48 + n div 10 mod 10, 48 + n mod 10]"
  by (subst dec.simps) (simp add: dec_three_digits digit_def div_mult2_eq [symmetric])

lemma dec2_digits: "n < 100 \<Longrightarrow> dec2 n = [48 + n div 10, 48 + n mod 10]"
  by (cases "n < 10") (simp_all add: dec2_def dec_one_digit dec_two_digits)

lemma is_dec_digit_mod: "is_dec_digit (48 + n mod 10)"
  by (simp add: is_dec_digit_def)

lemma is_dec_digit_div: "n < 10 * k \<Longrightarrow> is_dec_digit (48 + n div k)"
  by (simp add: is_dec_digit_def less_mult_imp_div_less)

lemma strftime_shape:
  assumes "clock_ok t"
  shows "is_timestamp (strftime t)"
proof -
  from assms have y: "1000 \<le> year t" "year t < 10000"
    and f: "month t < 100" "day t < 100" "hour t < 100" "minute t < 100" "second t < 100"
    by (simp_all add: clock_ok_def)
  have s: "strftime t =
      [48 + year t div 1000, 48 + year t div 100 mod 10, 48 + year t div 10 mod 10,
       48 + year t mod 10,
       48 + month t div 10, 48 + month t mod 10, 48 + day t div 10, 48 + day t mod 10, 95,
       48 + hour t div 10, 48 + hour t mod 10, 48 + minute t div 10, 48 + minute t mod 10,
       48 + second t div 10, 48 + second t mod 10]"
    using y f by (simp add: strftime_def dec_four_digits dec2_digits)
  show ?thesis
    unfolding s is_timestamp_def using y f
    by (simp add: is_dec_digit_mod is_dec_digit_div)
qed

lemma utf8_from_no_surrogate:
  "list_all (\<lambda>c. \<not> is_surrogate c) s \<Longrightarrow> utf8_from pos s = Inr (concat (map utf8_char s))"
  by (induction s arbitrary: pos) simp_all

lemma encode_utf8_no_surrogate:
  "list_all (\<lambda>c. \<not> is_surrogate c) s \<Longrightarrow> encode_utf8 s = Inr (concat (map utf8_char s))"
  by (simp add: encode_utf8_def utf8_from_no_surrogate)

section \<open>Facts about the handler\<close>

lemma remote_prompts_generate_logo:
  "remote_prompts (fst (generate_logo (Some g) now prompt style)) = [full_prompt prompt style]"
  by (simp add: generate_logo_def try_body_def Let_def split: sum.split option.split)

section \<open>Composed prompt\<close>

text \<open>
  Claim C1. When a style is chosen, the prompt given to the remote function is the
  user's prompt, then \<open>" in "\<close>, then the value of the chosen preset, then \<open>" style"\<close>;
  the remote function is called with that string and with no other. The prompt
  \<open>"a fox"\<close> with the preset named \<open>Retro\<close> gives
  \<open>"a fox in retro 80s synthwave style"\<close>.
\<close>

theorem C1_styled_prompt:
  "full_prompt prompt (Some c) = prompt @ lit '' in '' @ choice_value c @ lit '' style''
   \<and> remote_prompts (fst (generate_logo (Some g) now prompt (Some c)))
       = [prompt @ lit '' in '' @ choice_value c @ lit '' style'']
   \<and> choice_named (lit ''Retro'')
       = Some \<lparr>choice_name = lit ''Retro'', choice_value = lit ''retro 80s synthwave''\<rparr>
   \<and> full_prompt (lit ''a fox'') (choice_named (lit ''Retro''))
       = lit ''a fox in retro 80s synthwave style''"
proof -
  have a: "full_prompt prompt (Some c) = prompt @ lit '' in '' @ choice_value c @ lit '' style''"
    by (simp add: full_prompt_def)
  have b: "choice_named (lit ''Retro'')
      = Some \<lparr>choice_name = lit ''Retro'', choice_value = lit ''retro 80s synthwave''\<rparr>"
    by (simp add: choice_named_def style_choices_def lit_def)
  have c: "full_prompt (lit ''a fox'') (choice_named (lit ''Retro''))
      = lit ''a fox in retro 80s synthwave style''"
    unfolding b by (simp add: full_prompt_def lit_def)
  from a b c show ?thesis
    using remote_prompts_generate_logo [of g now prompt "Some c"] by simp
qed

text \<open>
  Claim C2. When no style is chosen, the prompt given to the remote function is the
  user's prompt, unchanged, and the remote function is called with it and nothing else.
\<close>

theorem C2_plain_prompt:
  "full_prompt prompt None = prompt
   \<and> remote_prompts (fst (generate_logo (Some g) now prompt None)) = [prompt]"
  using remote_prompts_generate_logo [of g now prompt None] by (simp add: full_prompt_def)

section \<open>Unavailable backend\<close>


section \<open>Acknowledgment before the remote call\<close>

text \<open>
  Claim C4. When the remote function is available, the first thing the handler does is
  the deferred acknowledgment and the second is the remote call, with the composed
  prompt: the remote call is never made before the acknowledgment.
\<close>

theorem C4_defer_before_remote:
  "take 2 (fst (generate_logo (Some g) now prompt style))
     = [Defer, Remote (full_prompt prompt style)]
   \<and> remote_prompts (takeWhile (\<lambda>a. a \<noteq> Defer) (fst (generate_logo (Some g) now prompt style)))
     = []"
  by (simp add: generate_logo_def try_body_def Let_def split: sum.split option.split)

section \<open>Delivery of the result\<close>

lemma generate_logo_success:
  assumes "g (full_prompt prompt style) = Inr svg_code"
    and "list_all (\<lambda>c. \<not> is_surrogate c) svg_code"
  shows "generate_logo (Some g) now prompt style =
    ([Defer, Remote (full_prompt prompt style),
      FollowupSend (success_embed (full_prompt prompt style))
        (Some \<lparr>fp = concat (map utf8_char svg_code),
               filename = lit ''logo_'' @ strftime now @ lit ''.svg''\<rparr>) False], None)"
  using assms by (simp add: generate_logo_def try_body_def encode_utf8_no_surrogate)

lemma generate_logo_raised:
  assumes "g (full_prompt prompt style) = Inl e"
  shows "generate_logo (Some g) now prompt style =
    (if is_Exception e
     then ([Defer, Remote (full_prompt prompt style), FollowupSend (error_embed e) None True], None)
     else ([Defer, Remote (full_prompt prompt style)], Some e))"
  using assms by (simp add: generate_logo_def try_body_def)

lemma a_clock_ok: "clock_ok a_clock"
  by (simp add: clock_ok_def a_clock_def)

lemma strftime_a_clock: "strftime a_clock = lit ''20240309_070500''"
  by (simp add: strftime_def a_clock_def dec_four_digits dec2_digits lit_def)

lemma svg_x_no_surrogate: "list_all (\<lambda>c. \<not> is_surrogate c) (lit ''<svg>x</svg>'')"
  by (simp add: lit_def is_surrogate_def)

lemma svg_x_bytes:
  "concat (map utf8_char (lit ''<svg>x</svg>''))
     = [60, 115, 118, 103, 62, 120, 60, 47, 115, 118, 103, 62]"
  by (simp add: lit_def utf8_char_def)

lemma encode_lone_surrogate: "encode_utf8 [55296] = Inl (unicode_encode_error 0 55296 [])"
  by (simp add: encode_utf8_def is_surrogate_def)

lemma encode_inner_surrogate:
  "encode_utf8 [60, 56832, 62] = Inl (unicode_encode_error 1 56832 [62])"
  by (simp add: encode_utf8_def is_surrogate_def)

lemma unicode_encode_error_is_Exception: "is_Exception (unicode_encode_error pos c cs)"
  by (simp add: unicode_encode_error_def Let_def)

text \<open>
  Claim C5, as the code has it. When the remote call returns a string with no surrogate
  code point (so that \<open>encode('utf-8')\<close> does not raise) and the clock's year has four
  digits, the handler sends one followup, to the channel, and it carries one file; the
  file's name is \<open>logo_\<close>, the time stamp, \<open>.svg\<close>, where the time stamp is eight
  digits, an underscore and six digits.
\<close>

theorem C5_svg_attachment:
  assumes "g (full_prompt prompt style) = Inr svg_code"
    and "list_all (\<lambda>c. \<not> is_surrogate c) svg_code"
    and "clock_ok now"
  shows "map filename (attachments (fst (generate_logo (Some g) now prompt style)))
           = [lit ''logo_'' @ strftime now @ lit ''.svg'']
    \<and> is_timestamp (strftime now)
    \<and> map (\<lambda>(e, f, eph). eph) (followups (fst (generate_logo (Some g) now prompt style)))
           = [False]
    \<and> snd (generate_logo (Some g) now prompt style) = None"
  using assms by (simp add: generate_logo_success strftime_shape)

theorem C5_svg_attachment_witness:
  "remote_returning (lit ''<svg>x</svg>'') (full_prompt (lit ''a fox'') None) = Inr (lit ''<svg>x</svg>'')
   \<and> list_all (\<lambda>c. \<not> is_surrogate c) (lit ''<svg>x</svg>'')
   \<and> clock_ok a_clock
   \<and> map filename (attachments (fst (generate_logo (Some (remote_returning (lit ''<svg>x</svg>'')))
         a_clock (lit ''a fox'') None)))
       = [lit ''logo_20240309_070500.svg'']"
proof -
  have r: "remote_returning (lit ''<svg>x</svg>'') (full_prompt (lit ''a fox'') None)
      = Inr (lit ''<svg>x</svg>'')"
    by (simp add: remote_returning_def)
  have n: "lit ''logo_'' @ strftime a_clock @ lit ''.svg'' = lit ''logo_20240309_070500.svg''"
    by (simp add: strftime_a_clock lit_def)
  show ?thesis
    using C5_svg_attachment [where g = "remote_returning (lit ''<svg>x</svg>'')"
        and prompt = "lit ''a fox''" and style = None and svg_code = "lit ''<svg>x</svg>''"
        and now = a_clock] r svg_x_no_surrogate a_clock_ok
    by (simp add: n)
qed

text \<open>
  The claim as written fails: the remote call returns the string made of the lone
  surrogate \<open>U+D800\<close>, encoding it raises, and no file is sent.
\<close>

theorem C5_counterexample:
  "remote_returning [55296] (full_prompt (lit ''a fox'') None) = Inr [55296]
   \<and> clock_ok a_clock
   \<and> attachments (fst (generate_logo (Some (remote_returning [55296])) a_clock (lit ''a fox'') None))
       = []"
  by (simp add: a_clock_ok remote_returning_def generate_logo_def try_body_def
      encode_lone_surrogate unicode_encode_error_is_Exception)

text \<open>
  Claim C6, as the code has it. When the remote call returns a string with no surrogate
  code point, the content of the one file sent is the UTF-8 encoding of that string,
  and the embed sent with it has the description \<open>**Prompt:**\<close> followed by the
  composed prompt.
\<close>

theorem C6_attachment_content:
  assumes "g (full_prompt prompt style) = Inr svg_code"
    and "list_all (\<lambda>c. \<not> is_surrogate c) svg_code"
  shows "encode_utf8 svg_code = Inr (concat (map utf8_char svg_code))
    \<and> map fp (attachments (fst (generate_logo (Some g) now prompt style)))
         = [concat (map utf8_char svg_code)]
    \<and> map (\<lambda>(e, f, eph). description e) (followups (fst (generate_logo (Some g) now prompt style)))
         = [lit ''**Prompt:** '' @ full_prompt prompt style]"
  using assms by (simp add: generate_logo_success encode_utf8_no_surrogate success_embed_def)

theorem C6_attachment_content_witness:
  "remote_returning (lit ''<svg>x</svg>'') (full_prompt (lit ''a fox'') None) = Inr (lit ''<svg>x</svg>'')
   \<and> list_all (\<lambda>c. \<not> is_surrogate c) (lit ''<svg>x</svg>'')
   \<and> map fp (attachments (fst (generate_logo (Some (remote_returning (lit ''<svg>x</svg>'')))
         a_clock (lit ''a fox'') None)))
       = [[60, 115, 118, 103, 62, 120, 60, 47, 115, 118, 103, 62]]
   \<and> map (\<lambda>(e, f, eph). description e)
        (followups (fst (generate_logo (Some (remote_returning (lit ''<svg>x</svg>'')))
         a_clock (lit ''a fox'') None)))
       = [lit ''**Prompt:** a fox'']"
proof -
  have r: "remote_returning (lit ''<svg>x</svg>'') (full_prompt (lit ''a fox'') None)
      = Inr (lit ''<svg>x</svg>'')"
    by (simp add: remote_returning_def)
  have d: "lit ''**Prompt:** '' @ full_prompt (lit ''a fox'') None = lit ''**Prompt:** a fox''"
    by (simp add: full_prompt_def lit_def)
  show ?thesis
    using C6_attachment_content [where g = "remote_returning (lit ''<svg>x</svg>'')"
        and prompt = "lit ''a fox''" and style = None and svg_code = "lit ''<svg>x</svg>''"
        and now = a_clock] r svg_x_no_surrogate
    by (simp add: svg_x_bytes d)
qed

text \<open>
  The claim as written fails: the remote call returns \<open><\<close>, the surrogate \<open>U+DE00\<close>,
  \<open>>\<close>; the only followup is the private failure notice, with no file and no summary.
\<close>

theorem C6_counterexample:
  "remote_returning [60, 56832, 62] (full_prompt (lit ''a fox'') None) = Inr [60, 56832, 62]
   \<and> generate_logo (Some (remote_returning [60, 56832, 62])) a_clock (lit ''a fox'') None
       = ([Defer, Remote (lit ''a fox''),
           FollowupSend (error_embed (unicode_encode_error 1 56832 [62])) None True], None)"
  by (simp add: remote_returning_def generate_logo_def try_body_def full_prompt_def
      encode_inner_surrogate unicode_encode_error_is_Exception)

section \<open>Failure of the remote call\<close>

text \<open>
  Claim C7, as the code has it. When the remote call raises an exception whose class
  derives from \<open>Exception\<close>, the handler catches it: after the acknowledgment and the
  remote call it sends one followup, marked ephemeral, with no file, whose description
  is the exception's \<open>str\<close> between code fences, and it returns normally. Every
  exception whose class does not derive from \<open>Exception\<close> is not caught: after the
  acknowledgment and the remote call nothing is sent, and the exception leaves the
  handler.
\<close>

theorem C7_failure_notice:
  assumes "g (full_prompt prompt style) = Inl e"
  shows "generate_logo (Some g) now prompt style =
      (if is_Exception e
       then ([Defer, Remote (full_prompt prompt style), FollowupSend (error_embed e) None True],
             None)
       else ([Defer, Remote (full_prompt prompt style)], Some e))
    \<and> description (error_embed e) = lit ''```'' @ str_of e @ lit ''```''"
  using assms by (simp add: generate_logo_raised error_embed_def)

theorem C7_failure_notice_witness:
  "remote_raising (Exn True (lit ''boom'')) (full_prompt (lit ''a fox'') None)
     = Inl (Exn True (lit ''boom''))
   \<and> is_Exception (Exn True (lit ''boom''))
   \<and> generate_logo (Some (remote_raising (Exn True (lit ''boom'')))) a_clock (lit ''a fox'') None =
      ([Defer, Remote (lit ''a fox''),
        FollowupSend (error_embed (Exn True (lit ''boom''))) None True], None)
   \<and> description (error_embed (Exn True (lit ''boom''))) = lit ''```boom```''
   \<and> remote_raising system_exit_3 (full_prompt (lit ''a fox'') None) = Inl system_exit_3
   \<and> \<not> is_Exception system_exit_3
   \<and> generate_logo (Some (remote_raising system_exit_3)) a_clock (lit ''a fox'') None =
      ([Defer, Remote (lit ''a fox'')], Some system_exit_3)"
proof -
  have r: "remote_raising (Exn True (lit ''boom'')) (full_prompt (lit ''a fox'') None)
      = Inl (Exn True (lit ''boom''))"
    by (simp add: remote_raising_def)
  have r': "remote_raising system_exit_3 (full_prompt (lit ''a fox'') None) = Inl system_exit_3"
    by (simp add: remote_raising_def)
  have n: "\<not> is_Exception system_exit_3"
    by (simp add: system_exit_3_def)
  have d: "lit ''```'' @ lit ''boom'' @ lit ''```'' = lit ''```boom```''"
    by (simp add: lit_def)
  have p: "full_prompt (lit ''a fox'') None = lit ''a fox''"
    by (simp add: full_prompt_def)
  show ?thesis
    using C7_failure_notice [where g = "remote_raising (Exn True (lit ''boom''))"
        and prompt = "lit ''a fox''" and style = None and e = "Exn True (lit ''boom'')"
        and now = a_clock]
      C7_failure_notice [where g = "remote_raising system_exit_3"
        and prompt = "lit ''a fox''" and style = None and e = system_exit_3
        and now = a_clock] r r' n
    by (simp add: d p)
qed

text \<open>
  The claim as written fails: the remote call raises \<open>KeyboardInterrupt\<close>, which
  \<open>except Exception\<close> does not catch; the exception leaves the handler and no response
  follows the acknowledgment.
\<close>

theorem C7_counterexample:
  "remote_raising keyboard_interrupt (full_prompt (lit ''a fox'') None) = Inl keyboard_interrupt
   \<and> generate_logo (Some (remote_raising keyboard_interrupt)) a_clock (lit ''a fox'') None
       = ([Defer, Remote (lit ''a fox'')], Some keyboard_interrupt)"
  by (simp add: remote_raising_def generate_logo_def try_body_def full_prompt_def
      keyboard_interrupt_def)

text \<open>
  Claim C8, as the code has it. When the remote call raises, the remote function has
  been called once and is not called again, and no file is sent. When the exception
  derives from \<open>Exception\<close> the only followup is the failure notice, ephemeral and
  without a file; otherwise there is no followup at all.
\<close>

theorem C8_no_retry_no_output:
  assumes "g (full_prompt prompt style) = Inl e"
  shows "remote_prompts (fst (generate_logo (Some g) now prompt style)) = [full_prompt prompt style]
    \<and> attachments (fst (generate_logo (Some g) now prompt style)) = []
    \<and> followups (fst (generate_logo (Some g) now prompt style))
        = (if is_Exception e then [(error_embed e, None, True)] else [])"
  using assms by (simp add: generate_logo_raised)

theorem C8_no_retry_no_output_witness:
  "remote_raising (Exn True (lit ''timeout'')) (full_prompt (lit ''a fox'') None)
     = Inl (Exn True (lit ''timeout''))
   \<and> remote_prompts (fst (generate_logo (Some (remote_raising (Exn True (lit ''timeout''))))
        a_clock (lit ''a fox'') None)) = [lit ''a fox'']
   \<and> attachments (fst (generate_logo (Some (remote_raising (Exn True (lit ''timeout''))))
        a_clock (lit ''a fox'') None)) = []
   \<and> followups (fst (generate_logo (Some (remote_raising (Exn True (lit ''timeout''))))
        a_clock (lit ''a fox'') None)) = [(error_embed (Exn True (lit ''timeout'')), None, True)]"
proof -
  have r: "remote_raising (Exn True (lit ''timeout'')) (full_prompt (lit ''a fox'') None)
      = Inl (Exn True (lit ''timeout''))"
    by (simp add: remote_raising_def)
  show ?thesis
    using C8_no_retry_no_output [where g = "remote_raising (Exn True (lit ''timeout''))"
        and prompt = "lit ''a fox''" and style = None and e = "Exn True (lit ''timeout'')"
        and now = a_clock] r
    by (simp add: full_prompt_def)
qed

text \<open>
  The claim as written fails in its last part: when the remote call raises
  \<open>KeyboardInterrupt\<close> no failure notice is sent, the list of followups is empty.
\<close>

theorem C8_counterexample:
  "remote_raising keyboard_interrupt (full_prompt (lit ''a fox'') None) = Inl keyboard_interrupt
   \<and> followups (fst (generate_logo (Some (remote_raising keyboard_interrupt)) a_clock
        (lit ''a fox'') None)) = []"
  by (simp add: remote_raising_def generate_logo_def try_body_def full_prompt_def
      keyboard_interrupt_def)

section \<open>The stub\<close>

text \<open>
  Claim C9. For every prompt the stub returns the same string, \<open><svg>...</svg>\<close>,
  which opens with \<open><svg>\<close> and closes with \<open></svg>\<close>; it raises for no prompt.
\<close>

theorem C9_stub_constant:
  "generate_logo_svg prompt = Inr (lit ''<svg>...</svg>'')
   \<and> isl (generate_logo_svg prompt) = False
   \<and> take 5 (lit ''<svg>...</svg>'') = lit ''<svg>''
   \<and> drop 8 (lit ''<svg>...</svg>'') = lit ''</svg>''"
  by (simp add: generate_logo_svg_def lit_def)

section \<open>The token\<close>

text \<open>
  Claim C10. The token is the value of \<open>DISCORD_BOT_TOKE\<close> when that is set and not
  empty, and the value of \<open>DISCORD_BOT_TOKEN\<close> otherwise. With a token that is not
  empty, \<open>start_bot\<close> starts the client once, with that token, and the \<open>__main__\<close>
  block, run from the command line, prints the starting line and runs the client with
  that token. With no token or an empty one, neither starts the client: \<open>start_bot\<close>
  prints the two error lines and returns, and the \<open>__main__\<close> block prints them and
  exits with status 1; so it is when neither variable is set.
\<close>

theorem C10_token_resolution:
  "TOKEN env =
     (case env ''DISCORD_BOT_TOKE'' of
        None \<Rightarrow> env ''DISCORD_BOT_TOKEN''
      | Some t \<Rightarrow> if t = [] then env ''DISCORD_BOT_TOKEN'' else Some t)
   \<and> client_tokens (fst (start_bot env outcome)) =
       (case TOKEN env of None \<Rightarrow> [] | Some t \<Rightarrow> if t = [] then [] else [t])
   \<and> main env False =
       (case TOKEN env of
          None \<Rightarrow>
            [Print ([10060] @ lit '' Error: DISCORD_BOT_TOKEN not set in .env file''),
             Print (lit ''Add to .env file: DISCORD_BOT_TOKE=your-token-here''), Exit 1]
        | Some t \<Rightarrow>
            if t = [] then
              [Print ([10060] @ lit '' Error: DISCORD_BOT_TOKEN not set in .env file''),
               Print (lit ''Add to .env file: DISCORD_BOT_TOKE=your-token-here''), Exit 1]
            else [Print ([129302] @ lit '' Starting Discord bot...''), ClientRun t])
   \<and> ((TOKEN env = None \<or> TOKEN env = Some []) \<longrightarrow>
        start_bot env outcome =
          ([Print ([10060] @ lit '' Error: DISCORD_BOT_TOKEN not set in .env file''),
            Print (lit ''Add to .env file: DISCORD_BOT_TOKE=your-token-here'')], None))
   \<and> (env ''DISCORD_BOT_TOKE'' = None \<and> env ''DISCORD_BOT_TOKEN'' = None \<longrightarrow>
        start_bot env outcome = (token_not_set, None)
        \<and> main env False = token_not_set @ [Exit 1])"
proof -
  have t: "TOKEN env =
     (case env ''DISCORD_BOT_TOKE'' of
        None \<Rightarrow> env ''DISCORD_BOT_TOKEN''
      | Some t \<Rightarrow> if t = [] then env ''DISCORD_BOT_TOKEN'' else Some t)"
    by (simp add: TOKEN_def py_or_def getenv_def truthy_def split: option.split)
  have s: "client_tokens (fst (start_bot env outcome)) =
       (case TOKEN env of None \<Rightarrow> [] | Some t \<Rightarrow> if t = [] then [] else [t])"
    by (cases outcome)
      (simp_all add: start_bot_def truthy_def token_not_set_def starting_def Let_def
        split: option.split)
  have m: "main env False =
       (case TOKEN env of
          None \<Rightarrow>
            [Print ([10060] @ lit '' Error: DISCORD_BOT_TOKEN not set in .env file''),
             Print (lit ''Add to .env file: DISCORD_BOT_TOKE=your-token-here''), Exit 1]
        | Some t \<Rightarrow>
            if t = [] then
              [Print ([10060] @ lit '' Error: DISCORD_BOT_TOKEN not set in .env file''),
               Print (lit ''Add to .env file: DISCORD_BOT_TOKE=your-token-here''), Exit 1]
            else [Print ([129302] @ lit '' Starting Discord bot...''), ClientRun t])"
    by (simp add: main_def truthy_def token_not_set_def starting_def split: option.split)
  have e: "(TOKEN env = None \<or> TOKEN env = Some []) \<longrightarrow>
        start_bot env outcome =
          ([Print ([10060] @ lit '' Error: DISCORD_BOT_TOKEN not set in .env file''),
            Print (lit ''Add to .env file: DISCORD_BOT_TOKE=your-token-here'')], None)"
    by (auto simp add: start_bot_def truthy_def token_not_set_def)
  have u: "env ''DISCORD_BOT_TOKE'' = None \<and> env ''DISCORD_BOT_TOKEN'' = None \<longrightarrow>
        start_bot env outcome = (token_not_set, None)
        \<and> main env False = token_not_set @ [Exit 1]"
    by (simp add: TOKEN_def py_or_def getenv_def truthy_def start_bot_def main_def)
  from t s m e u show ?thesis by blast
qed

theorem C10_token_resolution_witness:
  "env_of [] ''DISCORD_BOT_TOKE'' = None \<and> env_of [] ''DISCORD_BOT_TOKEN'' = None
   \<and> start_bot (env_of []) Returns = (token_not_set, None)
   \<and> main (env_of []) False = token_not_set @ [Exit 1]
   \<and> TOKEN (env_of [(''DISCORD_BOT_TOKE'', lit ''abc''), (''DISCORD_BOT_TOKEN'', lit ''xyz'')])
       = Some (lit ''abc'')
   \<and> client_tokens (fst (start_bot
        (env_of [(''DISCORD_BOT_TOKE'', lit ''abc''), (''DISCORD_BOT_TOKEN'', lit ''xyz'')]) Returns))
       = [lit ''abc'']
   \<and> main (env_of [(''DISCORD_BOT_TOKE'', lit ''abc''), (''DISCORD_BOT_TOKEN'', lit ''xyz'')]) False
       = [Print ([129302] @ lit '' Starting Discord bot...''), ClientRun (lit ''abc'')]
   \<and> TOKEN (env_of [(''DISCORD_BOT_TOKE'', []), (''DISCORD_BOT_TOKEN'', lit ''xyz'')])
       = Some (lit ''xyz'')
   \<and> TOKEN (env_of [(''DISCORD_BOT_TOKEN'', lit ''xyz'')]) = Some (lit ''xyz'')
   \<and> TOKEN (env_of [(''DISCORD_BOT_TOKEN'', [])]) = Some []
   \<and> start_bot (env_of [(''DISCORD_BOT_TOKEN'', [])]) Returns =
       ([Print ([10060] @ lit '' Error: DISCORD_BOT_TOKEN not set in .env file''),
         Print (lit ''Add to .env file: DISCORD_BOT_TOKE=your-token-here'')], None)"
proof -
  have ne: "lit ''abc'' \<noteq> []"
    by (simp add: lit_def)
  have u: "env_of [] ''DISCORD_BOT_TOKE'' = None \<and> env_of [] ''DISCORD_BOT_TOKEN'' = None"
    by (simp add: env_of_def)
  have u': "start_bot (env_of []) Returns = (token_not_set, None)
      \<and> main (env_of []) False = token_not_set @ [Exit 1]"
    using C10_token_resolution [of "env_of []" Returns] u by blast
  have k: "env_of [(''DISCORD_BOT_TOKE'', lit ''abc''), (''DISCORD_BOT_TOKEN'', lit ''xyz'')]
      ''DISCORD_BOT_TOKE'' = Some (lit ''abc'')"
    by (simp add: env_of_def)
  note A = C10_token_resolution
      [of "env_of [(''DISCORD_BOT_TOKE'', lit ''abc''), (''DISCORD_BOT_TOKEN'', lit ''xyz'')]" Returns]
  have a: "TOKEN (env_of [(''DISCORD_BOT_TOKE'', lit ''abc''), (''DISCORD_BOT_TOKEN'', lit ''xyz'')])
      = Some (lit ''abc'')"
    using A [THEN conjunct1] by (simp add: k ne)
  have a1: "client_tokens (fst (start_bot
        (env_of [(''DISCORD_BOT_TOKE'', lit ''abc''), (''DISCORD_BOT_TOKEN'', lit ''xyz'')]) Returns))
       = [lit ''abc'']"
    using A [THEN conjunct2, THEN conjunct1] by (simp add: a ne)
  have a2: "main (env_of [(''DISCORD_BOT_TOKE'', lit ''abc''), (''DISCORD_BOT_TOKEN'', lit ''xyz'')]) False
       = [Print ([129302] @ lit '' Starting Discord bot...''), ClientRun (lit ''abc'')]"
    using A [THEN conjunct2, THEN conjunct2, THEN conjunct1] by (simp add: a ne)
  have b: "TOKEN (env_of [(''DISCORD_BOT_TOKE'', []), (''DISCORD_BOT_TOKEN'', lit ''xyz'')])
      = Some (lit ''xyz'')"
    using C10_token_resolution
      [of "env_of [(''DISCORD_BOT_TOKE'', []), (''DISCORD_BOT_TOKEN'', lit ''xyz'')]" Returns,
       THEN conjunct1]
    by (simp add: env_of_def)
  have c: "TOKEN (env_of [(''DISCORD_BOT_TOKEN'', lit ''xyz'')]) = Some (lit ''xyz'')"
    using C10_token_resolution [of "env_of [(''DISCORD_BOT_TOKEN'', lit ''xyz'')]" Returns,
       THEN conjunct1]
    by (simp add: env_of_def)
  note D = C10_token_resolution [of "env_of [(''DISCORD_BOT_TOKEN'', [])]" Returns]
  have d: "TOKEN (env_of [(''DISCORD_BOT_TOKEN'', [])]) = Some []"
    using D [THEN conjunct1] by (simp add: env_of_def)
  have d1: "start_bot (env_of [(''DISCORD_BOT_TOKEN'', [])]) Returns =
       ([Print ([10060] @ lit '' Error: DISCORD_BOT_TOKEN not set in .env file''),
         Print (lit ''Add to .env file: DISCORD_BOT_TOKE=your-token-here'')], None)"
    using D [THEN conjunct2, THEN conjunct2, THEN conjunct2, THEN conjunct1] d by blast
  from u u' a a1 a2 b c d d1 show ?thesis by blast
qed

end
